theory Spec2Isabelle
  imports Main
begin

section \<open>Strings\<close>

text \<open>
  A Python \<^verbatim>\<open>str\<close> is modelled as a \<^typ>\<open>string\<close>. A \<^typ>\<open>char\<close> stands for the code
  point of the same number, so the model covers the strings over the code points below
  256 and \<^const>\<open>length\<close> is Python's \<^verbatim>\<open>len\<close> on them.
\<close>

definition is_digit :: "char \<Rightarrow> bool" where
  \<comment> \<open>the regular expression class \<^verbatim>\<open>[0-9]\<close>\<close>
  "is_digit c = (let n = (of_char c :: nat) in 48 \<le> n \<and> n \<le> 57)"

definition is_letter_us :: "char \<Rightarrow> bool" where
  \<comment> \<open>the regular expression class \<^verbatim>\<open>[A-Za-z_]\<close>\<close>
  "is_letter_us c = (let n = (of_char c :: nat) in
     (65 \<le> n \<and> n \<le> 90) \<or> (97 \<le> n \<and> n \<le> 122) \<or> c = CHR ''_'')"

definition is_id_char :: "char \<Rightarrow> bool" where
  \<comment> \<open>the regular expression class \<^verbatim>\<open>[0-9A-Za-z_]\<close>\<close>
  "is_id_char c = (is_digit c \<or> is_letter_us c)"

section \<open>Library functions on strings\<close>

definition newline :: char where
  "newline = CHR 0x0A"

definition dquote :: char where
  "dquote = CHR 0x22"

definition squote :: char where
  "squote = CHR 0x27"

definition isspace :: "char \<Rightarrow> bool" where
  \<comment> \<open>\<^verbatim>\<open>str.isspace\<close> and the class \<^verbatim>\<open>\s\<close> of \<^verbatim>\<open>re\<close> on a \<^verbatim>\<open>str\<close>: the code points
     9 to 13, 28 to 32, 0x85 and 0xA0 are the white space below 256\<close>
  "isspace c = (let n = (of_char c :: nat) in
     (9 \<le> n \<and> n \<le> 13) \<or> (28 \<le> n \<and> n \<le> 32) \<or> n = 0x85 \<or> n = 0xA0)"

definition strip :: "string \<Rightarrow> string" where
  \<comment> \<open>\<^verbatim>\<open>str.strip()\<close>\<close>
  "strip s = rev (dropWhile isspace (rev (dropWhile isspace s)))"

definition lower_char :: "char \<Rightarrow> char" where
  \<comment> \<open>the upper-case letters below 256 are A to Z and 0xC0 to 0xDE without 0xD7\<close>
  "lower_char c = (let n = (of_char c :: nat) in
     if (65 \<le> n \<and> n \<le> 90) \<or> (192 \<le> n \<and> n \<le> 222 \<and> n \<noteq> 215)
     then char_of (n + 32) else c)"

definition lower :: "string \<Rightarrow> string" where
  \<comment> \<open>\<^verbatim>\<open>str.lower()\<close>\<close>
  "lower s = map lower_char s"

definition startswith :: "string \<Rightarrow> string \<Rightarrow> bool" where
  \<comment> \<open>\<^verbatim>\<open>s.startswith(p)\<close>\<close>
  "startswith s p = (take (length p) s = p)"

fun contains :: "string \<Rightarrow> string \<Rightarrow> bool" where
  \<comment> \<open>\<^verbatim>\<open>p in s\<close>\<close>
  "contains p [] = (p = [])"
| "contains p (c # cs) = (startswith (c # cs) p \<or> contains p cs)"

fun join :: "string \<Rightarrow> string list \<Rightarrow> string" where
  \<comment> \<open>\<^verbatim>\<open>sep.join(xs)\<close>\<close>
  "join sep [] = []"
| "join sep [x] = x"
| "join sep (x # y # ys) = x @ sep @ join sep (y # ys)"

text \<open>
  \<^verbatim>\<open>s.replace(old, new)\<close> for a non-empty \<^verbatim>\<open>old\<close> (every call of the program passes a
  non-empty literal): the occurrences are replaced from the left, without overlap.
\<close>

function py_replace :: "string \<Rightarrow> string \<Rightarrow> string \<Rightarrow> string" where
  "py_replace old new [] = []"
| "py_replace old new (c # cs) =
     (if old \<noteq> [] \<and> startswith (c # cs) old
      then new @ py_replace old new (drop (length old) (c # cs))
      else c # py_replace old new cs)"
  by pat_completeness auto
termination
  by (relation "measure (\<lambda>(old, new, s). length s)") (auto simp: startswith_def)

function show_nat :: "nat \<Rightarrow> string" where
  \<comment> \<open>the decimal digits of a number, as an f-string prints it\<close>
  "show_nat n = (if n < 10 then [char_of (48 + n)]
                 else show_nat (n div 10) @ [char_of (48 + n mod 10)])"
  by pat_completeness auto
termination
  by (relation "measure id") auto

subsection \<open>\<^verbatim>\<open>html.unescape\<close>\<close>

text \<open>
  The standard library's \<^verbatim>\<open>unescape\<close> returns a string without \<^verbatim>\<open>&\<close> as it is and otherwise
  replaces every match of
  \<^verbatim>\<open>&(#[0-9]+;?|#[xX][0-9a-fA-F]+;?|[^\t\n\f <&#;]{1,32};?)\<close>
  by the character the reference stands for. The model has the library's algorithm and
  the library's table of named references, with one restriction: a reference, named or
  numeric, whose replacement holds a character that is not below code point 256 is left
  as it is written.
\<close>

definition is_hex_digit :: "char \<Rightarrow> bool" where
  \<comment> \<open>the class \<^verbatim>\<open>[0-9a-fA-F]\<close>\<close>
  "is_hex_digit c = (let n = (of_char c :: nat) in
     (48 \<le> n \<and> n \<le> 57) \<or> (97 \<le> n \<and> n \<le> 102) \<or> (65 \<le> n \<and> n \<le> 70))"

definition is_name_char :: "char \<Rightarrow> bool" where
  \<comment> \<open>the class \<^verbatim>\<open>[^\t\n\f <&#;]\<close>\<close>
  "is_name_char c =
     (c \<notin> set [CHR 0x09, CHR 0x0A, CHR 0x0C, CHR '' '', CHR ''<'', CHR ''&'', CHR ''#'', CHR '';''])"

definition semi_len :: "string \<Rightarrow> nat" where
  \<comment> \<open>the length of what \<^verbatim>\<open>;?\<close> matches at the start of the text\<close>
  "semi_len rest = (case rest of [] \<Rightarrow> 0 | c # _ \<Rightarrow> if c = CHR '';'' then 1 else 0)"

definition charref_len :: "string \<Rightarrow> nat" where
  \<comment> \<open>the length of the group matched after an \<^verbatim>\<open>&\<close>, 0 when the expression does not match\<close>
  "charref_len cs =
     (case cs of
        [] \<Rightarrow> 0
      | h # ds \<Rightarrow>
          let digits = takeWhile is_digit ds;
              hexes = (case ds of [] \<Rightarrow> []
                       | x # es \<Rightarrow> if x = CHR ''x'' \<or> x = CHR ''X'' then takeWhile is_hex_digit es else []);
              name = take 32 (takeWhile is_name_char cs)
          in if h = CHR ''#'' \<and> digits \<noteq> []
             then 1 + length digits + semi_len (drop (length digits) ds)
             else if h = CHR ''#'' \<and> hexes \<noteq> []
             then 2 + length hexes + semi_len (drop (1 + length hexes) ds)
             else if name \<noteq> []
             then length name + semi_len (drop (length name) cs)
             else 0)"

definition rstrip_semi :: "string \<Rightarrow> string" where
  \<comment> \<open>\<^verbatim>\<open>s.rstrip(';')\<close>\<close>
  "rstrip_semi s = rev (dropWhile (\<lambda>c. c = CHR '';'') (rev s))"

definition hex_value :: "char \<Rightarrow> nat" where
  "hex_value c = (let n = (of_char c :: nat) in
     if n \<le> 57 then n - 48 else if n \<le> 70 then n - 55 else n - 87)"

definition int_of_digits :: "nat \<Rightarrow> string \<Rightarrow> nat" where
  \<comment> \<open>\<^verbatim>\<open>int(s, base)\<close> on a string of digits of the base\<close>
  "int_of_digits base s = foldl (\<lambda>n c. base * n + hex_value c) 0 s"

definition numeric_charref :: "nat \<Rightarrow> string option" where
  \<comment> \<open>the replacement of the numeric reference to \<open>num\<close>; \<open>None\<close> when the library's
     replacement is a character that is not below code point 256\<close>
  "numeric_charref num =
     (if num = 0x0D then Some [CHR 0x0D]
      else if num \<in> {0x81, 0x8D, 0x8F, 0x90, 0x9D} then Some [char_of num]
      else if num = 0 \<or> (0x80 \<le> num \<and> num \<le> 0x9F) then None
      else if (0xD800 \<le> num \<and> num \<le> 0xDFFF) \<or> num > 0x10FFFF then None
      else if (1 \<le> num \<and> num \<le> 8) \<or> (0x0E \<le> num \<and> num \<le> 0x1F) \<or> num = 0x7F
              \<or> num = 0x0B \<or> (0xFDD0 \<le> num \<and> num \<le> 0xFDEF) \<or> 0xFFFE \<le> num mod 0x10000
      then Some []
      else if num < 256 then Some [char_of num]
      else None)"

definition html5 :: "(string \<times> string) list" where
  \<comment> \<open>the entries of the library's table \<^verbatim>\<open>html.entities.html5\<close> whose replacement lies
     below code point 256, each name with the code points of its replacement\<close>
  "html5 =
     [(''AElig'', [CHR 0xC6]), (''AElig;'', [CHR 0xC6]), (''AMP'', [CHR 0x26]),
      (''AMP;'', [CHR 0x26]), (''Aacute'', [CHR 0xC1]), (''Aacute;'', [CHR 0xC1]),
      (''Acirc'', [CHR 0xC2]), (''Acirc;'', [CHR 0xC2]), (''Agrave'', [CHR 0xC0]),
      (''Agrave;'', [CHR 0xC0]), (''Aring'', [CHR 0xC5]), (''Aring;'', [CHR 0xC5]),
      (''Atilde'', [CHR 0xC3]), (''Atilde;'', [CHR 0xC3]), (''Auml'', [CHR 0xC4]),
      (''Auml;'', [CHR 0xC4]), (''COPY'', [CHR 0xA9]), (''COPY;'', [CHR 0xA9]),
      (''Ccedil'', [CHR 0xC7]), (''Ccedil;'', [CHR 0xC7]), (''Cedilla;'', [CHR 0xB8]),
      (''CenterDot;'', [CHR 0xB7]), (''DiacriticalAcute;'', [CHR 0xB4]),
      (''DiacriticalGrave;'', [CHR 0x60]), (''Dot;'', [CHR 0xA8]),
      (''DoubleDot;'', [CHR 0xA8]), (''ETH'', [CHR 0xD0]), (''ETH;'', [CHR 0xD0]),
      (''Eacute'', [CHR 0xC9]), (''Eacute;'', [CHR 0xC9]), (''Ecirc'', [CHR 0xCA]),
      (''Ecirc;'', [CHR 0xCA]), (''Egrave'', [CHR 0xC8]), (''Egrave;'', [CHR 0xC8]),
      (''Euml'', [CHR 0xCB]), (''Euml;'', [CHR 0xCB]), (''GT'', [CHR 0x3E]),
      (''GT;'', [CHR 0x3E]), (''Hat;'', [CHR 0x5E]), (''Iacute'', [CHR 0xCD]),
      (''Iacute;'', [CHR 0xCD]), (''Icirc'', [CHR 0xCE]), (''Icirc;'', [CHR 0xCE]),
      (''Igrave'', [CHR 0xCC]), (''Igrave;'', [CHR 0xCC]), (''Iuml'', [CHR 0xCF]),
      (''Iuml;'', [CHR 0xCF]), (''LT'', [CHR 0x3C]), (''LT;'', [CHR 0x3C]),
      (''NewLine;'', [CHR 0x0A]), (''NonBreakingSpace;'', [CHR 0xA0]),
      (''Ntilde'', [CHR 0xD1]), (''Ntilde;'', [CHR 0xD1]), (''Oacute'', [CHR 0xD3]),
      (''Oacute;'', [CHR 0xD3]), (''Ocirc'', [CHR 0xD4]), (''Ocirc;'', [CHR 0xD4]),
      (''Ograve'', [CHR 0xD2]), (''Ograve;'', [CHR 0xD2]), (''Oslash'', [CHR 0xD8]),
      (''Oslash;'', [CHR 0xD8]), (''Otilde'', [CHR 0xD5]), (''Otilde;'', [CHR 0xD5]),
      (''Ouml'', [CHR 0xD6]), (''Ouml;'', [CHR 0xD6]), (''PlusMinus;'', [CHR 0xB1]),
      (''QUOT'', [CHR 0x22]), (''QUOT;'', [CHR 0x22]), (''REG'', [CHR 0xAE]),
      (''REG;'', [CHR 0xAE]), (''THORN'', [CHR 0xDE]), (''THORN;'', [CHR 0xDE]),
      (''Tab;'', [CHR 0x09]), (''Uacute'', [CHR 0xDA]), (''Uacute;'', [CHR 0xDA]),
      (''Ucirc'', [CHR 0xDB]), (''Ucirc;'', [CHR 0xDB]), (''Ugrave'', [CHR 0xD9]),
      (''Ugrave;'', [CHR 0xD9]), (''UnderBar;'', [CHR 0x5F]), (''Uuml'', [CHR 0xDC]),
      (''Uuml;'', [CHR 0xDC]), (''VerticalLine;'', [CHR 0x7C]), (''Yacute'', [CHR 0xDD]),
      (''Yacute;'', [CHR 0xDD]), (''aacute'', [CHR 0xE1]), (''aacute;'', [CHR 0xE1]),
      (''acirc'', [CHR 0xE2]), (''acirc;'', [CHR 0xE2]), (''acute'', [CHR 0xB4]),
      (''acute;'', [CHR 0xB4]), (''aelig'', [CHR 0xE6]), (''aelig;'', [CHR 0xE6]),
      (''agrave'', [CHR 0xE0]), (''agrave;'', [CHR 0xE0]), (''amp'', [CHR 0x26]),
      (''amp;'', [CHR 0x26]), (''angst;'', [CHR 0xC5]), (''apos;'', [CHR 0x27]),
      (''aring'', [CHR 0xE5]), (''aring;'', [CHR 0xE5]), (''ast;'', [CHR 0x2A]),
      (''atilde'', [CHR 0xE3]), (''atilde;'', [CHR 0xE3]), (''auml'', [CHR 0xE4]),
      (''auml;'', [CHR 0xE4]), (''brvbar'', [CHR 0xA6]), (''brvbar;'', [CHR 0xA6]),
      (''bsol;'', [CHR 0x5C]), (''ccedil'', [CHR 0xE7]), (''ccedil;'', [CHR 0xE7]),
      (''cedil'', [CHR 0xB8]), (''cedil;'', [CHR 0xB8]), (''cent'', [CHR 0xA2]),
      (''cent;'', [CHR 0xA2]), (''centerdot;'', [CHR 0xB7]), (''circledR;'', [CHR 0xAE]),
      (''colon;'', [CHR 0x3A]), (''comma;'', [CHR 0x2C]), (''commat;'', [CHR 0x40]),
      (''copy'', [CHR 0xA9]), (''copy;'', [CHR 0xA9]), (''curren'', [CHR 0xA4]),
      (''curren;'', [CHR 0xA4]), (''deg'', [CHR 0xB0]), (''deg;'', [CHR 0xB0]),
      (''die;'', [CHR 0xA8]), (''div;'', [CHR 0xF7]), (''divide'', [CHR 0xF7]),
      (''divide;'', [CHR 0xF7]), (''dollar;'', [CHR 0x24]), (''eacute'', [CHR 0xE9]),
      (''eacute;'', [CHR 0xE9]), (''ecirc'', [CHR 0xEA]), (''ecirc;'', [CHR 0xEA]),
      (''egrave'', [CHR 0xE8]), (''egrave;'', [CHR 0xE8]), (''equals;'', [CHR 0x3D]),
      (''eth'', [CHR 0xF0]), (''eth;'', [CHR 0xF0]), (''euml'', [CHR 0xEB]),
      (''euml;'', [CHR 0xEB]), (''excl;'', [CHR 0x21]), (''fjlig;'', [CHR 0x66, CHR 0x6A]),
      (''frac12'', [CHR 0xBD]), (''frac12;'', [CHR 0xBD]), (''frac14'', [CHR 0xBC]),
      (''frac14;'', [CHR 0xBC]), (''frac34'', [CHR 0xBE]), (''frac34;'', [CHR 0xBE]),
      (''grave;'', [CHR 0x60]), (''gt'', [CHR 0x3E]), (''gt;'', [CHR 0x3E]),
      (''half;'', [CHR 0xBD]), (''iacute'', [CHR 0xED]), (''iacute;'', [CHR 0xED]),
      (''icirc'', [CHR 0xEE]), (''icirc;'', [CHR 0xEE]), (''iexcl'', [CHR 0xA1]),
      (''iexcl;'', [CHR 0xA1]), (''igrave'', [CHR 0xEC]), (''igrave;'', [CHR 0xEC]),
      (''iquest'', [CHR 0xBF]), (''iquest;'', [CHR 0xBF]), (''iuml'', [CHR 0xEF]),
      (''iuml;'', [CHR 0xEF]), (''laquo'', [CHR 0xAB]), (''laquo;'', [CHR 0xAB]),
      (''lbrace;'', [CHR 0x7B]), (''lbrack;'', [CHR 0x5B]), (''lcub;'', [CHR 0x7B]),
      (''lowbar;'', [CHR 0x5F]), (''lpar;'', [CHR 0x28]), (''lsqb;'', [CHR 0x5B]),
      (''lt'', [CHR 0x3C]), (''lt;'', [CHR 0x3C]), (''macr'', [CHR 0xAF]),
      (''macr;'', [CHR 0xAF]), (''micro'', [CHR 0xB5]), (''micro;'', [CHR 0xB5]),
      (''midast;'', [CHR 0x2A]), (''middot'', [CHR 0xB7]), (''middot;'', [CHR 0xB7]),
      (''nbsp'', [CHR 0xA0]), (''nbsp;'', [CHR 0xA0]), (''not'', [CHR 0xAC]),
      (''not;'', [CHR 0xAC]), (''ntilde'', [CHR 0xF1]), (''ntilde;'', [CHR 0xF1]),
      (''num;'', [CHR 0x23]), (''oacute'', [CHR 0xF3]), (''oacute;'', [CHR 0xF3]),
      (''ocirc'', [CHR 0xF4]), (''ocirc;'', [CHR 0xF4]), (''ograve'', [CHR 0xF2]),
      (''ograve;'', [CHR 0xF2]), (''ordf'', [CHR 0xAA]), (''ordf;'', [CHR 0xAA]),
      (''ordm'', [CHR 0xBA]), (''ordm;'', [CHR 0xBA]), (''oslash'', [CHR 0xF8]),
      (''oslash;'', [CHR 0xF8]), (''otilde'', [CHR 0xF5]), (''otilde;'', [CHR 0xF5]),
      (''ouml'', [CHR 0xF6]), (''ouml;'', [CHR 0xF6]), (''para'', [CHR 0xB6]),
      (''para;'', [CHR 0xB6]), (''percnt;'', [CHR 0x25]), (''period;'', [CHR 0x2E]),
      (''plus;'', [CHR 0x2B]), (''plusmn'', [CHR 0xB1]), (''plusmn;'', [CHR 0xB1]),
      (''pm;'', [CHR 0xB1]), (''pound'', [CHR 0xA3]), (''pound;'', [CHR 0xA3]),
      (''quest;'', [CHR 0x3F]), (''quot'', [CHR 0x22]), (''quot;'', [CHR 0x22]),
      (''raquo'', [CHR 0xBB]), (''raquo;'', [CHR 0xBB]), (''rbrace;'', [CHR 0x7D]),
      (''rbrack;'', [CHR 0x5D]), (''rcub;'', [CHR 0x7D]), (''reg'', [CHR 0xAE]),
      (''reg;'', [CHR 0xAE]), (''rpar;'', [CHR 0x29]), (''rsqb;'', [CHR 0x5D]),
      (''sect'', [CHR 0xA7]), (''sect;'', [CHR 0xA7]), (''semi;'', [CHR 0x3B]),
      (''shy'', [CHR 0xAD]), (''shy;'', [CHR 0xAD]), (''sol;'', [CHR 0x2F]),
      (''strns;'', [CHR 0xAF]), (''sup1'', [CHR 0xB9]), (''sup1;'', [CHR 0xB9]),
      (''sup2'', [CHR 0xB2]), (''sup2;'', [CHR 0xB2]), (''sup3'', [CHR 0xB3]),
      (''sup3;'', [CHR 0xB3]), (''szlig'', [CHR 0xDF]), (''szlig;'', [CHR 0xDF]),
      (''thorn'', [CHR 0xFE]), (''thorn;'', [CHR 0xFE]), (''times'', [CHR 0xD7]),
      (''times;'', [CHR 0xD7]), (''uacute'', [CHR 0xFA]), (''uacute;'', [CHR 0xFA]),
      (''ucirc'', [CHR 0xFB]), (''ucirc;'', [CHR 0xFB]), (''ugrave'', [CHR 0xF9]),
      (''ugrave;'', [CHR 0xF9]), (''uml'', [CHR 0xA8]), (''uml;'', [CHR 0xA8]),
      (''uuml'', [CHR 0xFC]), (''uuml;'', [CHR 0xFC]), (''verbar;'', [CHR 0x7C]),
      (''vert;'', [CHR 0x7C]), (''yacute'', [CHR 0xFD]), (''yacute;'', [CHR 0xFD]),
      (''yen'', [CHR 0xA5]), (''yen;'', [CHR 0xA5]), (''yuml'', [CHR 0xFF]),
      (''yuml;'', [CHR 0xFF])]"

definition html5_beyond :: "string list" where
  \<comment> \<open>the names of the library's table whose replacement does not lie below code point
     256 and that begin with a name of \<open>html5\<close>; the other names of the library's table
     have no prefix in it, so the search for a prefix below leaves them as written too\<close>
  "html5_beyond =
     [''copysr;'', ''divideontimes;'', ''gtcc;'', ''gtcir;'', ''gtdot;'', ''gtlPar;'',
      ''gtquest;'', ''gtrapprox;'', ''gtrarr;'', ''gtrdot;'', ''gtreqless;'',
      ''gtreqqless;'', ''gtrless;'', ''gtrsim;'', ''ltcc;'', ''ltcir;'', ''ltdot;'',
      ''lthree;'', ''ltimes;'', ''ltlarr;'', ''ltquest;'', ''ltrPar;'', ''ltri;'',
      ''ltrie;'', ''ltrif;'', ''notin;'', ''notinE;'', ''notindot;'', ''notinva;'',
      ''notinvb;'', ''notinvc;'', ''notni;'', ''notniva;'', ''notnivb;'', ''notnivc;'',
      ''parallel;'', ''timesb;'', ''timesbar;'', ''timesd;'']"

definition replace_charref :: "string \<Rightarrow> string" where
  \<comment> \<open>the library's \<^verbatim>\<open>_replace_charref\<close> on the matched group: a numeric reference, a
     name of the table (one of \<open>html5_beyond\<close> is left as written), or the longest prefix
     of two or more characters that is a name of the table followed by the rest;
     otherwise the reference as it is written\<close>
  "replace_charref s =
     (if take 1 s = ''#'' then
        (let num = (if take 1 (drop 1 s) = ''x'' \<or> take 1 (drop 1 s) = ''X''
                    then int_of_digits 16 (rstrip_semi (drop 2 s))
                    else int_of_digits 10 (rstrip_semi (drop 1 s)))
         in case numeric_charref num of Some r \<Rightarrow> r | None \<Rightarrow> CHR ''&'' # s)
      else
        (case map_of html5 s of
           Some v \<Rightarrow> v
         | None \<Rightarrow>
             if s \<in> set html5_beyond then CHR ''&'' # s
             else
               (case List.find (\<lambda>x. map_of html5 (take x s) \<noteq> None) (rev [2..<length s]) of
                  Some x \<Rightarrow> (case map_of html5 (take x s) of Some v \<Rightarrow> v @ drop x s
                             | None \<Rightarrow> CHR ''&'' # s)
                | None \<Rightarrow> CHR ''&'' # s)))"

fun charref_sub :: "string \<Rightarrow> string" where
  \<comment> \<open>\<^verbatim>\<open>_charref.sub(_replace_charref, s)\<close>\<close>
  "charref_sub [] = []"
| "charref_sub (c # cs) =
     (if c = CHR ''&'' \<and> 0 < charref_len cs
      then replace_charref (take (charref_len cs) cs) @ charref_sub (drop (charref_len cs) cs)
      else c # charref_sub cs)"

definition unescape :: "string \<Rightarrow> string" where
  "unescape s = (if CHR ''&'' \<notin> set s then s else charref_sub s)"

section \<open>The text normalizer\<close>

text \<open>
  \<^verbatim>\<open>re.sub(r"<(br|/p)>", "\n", html, flags=re.I)\<close>: the four characters of a line break
  tag or of a closing paragraph tag, in either case of the letters, become one newline.
\<close>

definition br_at :: "string \<Rightarrow> bool" where
  \<comment> \<open>the text after a \<^verbatim>\<open><\<close> goes on with \<^verbatim>\<open>br>\<close> or \<^verbatim>\<open>/p>\<close>\<close>
  "br_at cs =
     (case cs of
        a # b # d # _ \<Rightarrow>
          d = CHR ''>'' \<and>
          (((a = CHR ''b'' \<or> a = CHR ''B'') \<and> (b = CHR ''r'' \<or> b = CHR ''R'')) \<or>
           (a = CHR ''/'' \<and> (b = CHR ''p'' \<or> b = CHR ''P'')))
      | _ \<Rightarrow> False)"

fun sub_br :: "string \<Rightarrow> string" where
  "sub_br [] = []"
| "sub_br (c # cs) =
     (if c = CHR ''<'' \<and> br_at cs then newline # sub_br (drop 3 cs) else c # sub_br cs)"

text \<open>
  \<^verbatim>\<open>re.sub(r"<[^>]+>", "", text)\<close>: a \<^verbatim>\<open><\<close> starts a tag when the next character exists and
  is not \<^verbatim>\<open>>\<close> and a \<^verbatim>\<open>>\<close> comes later; the tag runs to the first such \<^verbatim>\<open>>\<close>.
\<close>

definition tag_at :: "string \<Rightarrow> bool" where
  "tag_at cs = (case cs of [] \<Rightarrow> False | d # ds \<Rightarrow> d \<noteq> CHR ''>'' \<and> CHR ''>'' \<in> set ds)"

function strip_tags :: "string \<Rightarrow> string" where
  "strip_tags [] = []"
| "strip_tags (c # cs) =
     (if c = CHR ''<'' \<and> tag_at cs
      then strip_tags (drop 1 (dropWhile (\<lambda>d. d \<noteq> CHR ''>'') cs))
      else c # strip_tags cs)"
  by pat_completeness auto
termination
  by (relation "measure length")
     (auto simp: less_Suc_eq_le intro: le_trans [OF diff_le_self length_dropWhile_le])

text \<open>\<^verbatim>\<open>re.sub(r"\s+", " ", text)\<close>: every run of white space becomes one space.\<close>

function collapse_ws :: "string \<Rightarrow> string" where
  "collapse_ws [] = []"
| "collapse_ws (c # cs) =
     (if isspace c then CHR '' '' # collapse_ws (dropWhile isspace cs)
      else c # collapse_ws cs)"
  by pat_completeness auto
termination
  by (relation "measure length") (auto simp: le_imp_less_Suc length_dropWhile_le)

definition html_to_text :: "string \<Rightarrow> string" where
  "html_to_text html =
     (if html = [] then []
      else strip (collapse_ws (unescape (strip_tags (sub_br html)))))"

definition html_to_text_opt :: "string option \<Rightarrow> string" where
  \<comment> \<open>the normalizer on a field that may be absent: \<^verbatim>\<open>not html\<close> holds for \<^verbatim>\<open>None\<close> too\<close>
  "html_to_text_opt html = (case html of None \<Rightarrow> [] | Some h \<Rightarrow> html_to_text h)"

subsection \<open>Normal forms of the text normalizer\<close>





section \<open>The identifier sanitizer\<close>

text \<open>
  \<^verbatim>\<open>re.match(r"^[A-Za-z_]", raw_id)\<close>: the first character exists and is a letter or an
  underscore.
\<close>

definition match_letter_us :: "string \<Rightarrow> bool" where
  "match_letter_us s = (case s of [] \<Rightarrow> False | c # _ \<Rightarrow> is_letter_us c)"

text \<open>
  \<^verbatim>\<open>re.sub(r"[^0-9A-Za-z_]+", "_", base)\<close>: scanning from the left, a character of the
  class is kept; at a character outside the class the longest run of such characters is
  consumed and one underscore is written.
\<close>

function sub_disallowed :: "string \<Rightarrow> string" where
  "sub_disallowed [] = []"
| "sub_disallowed (c # cs) =
     (if is_id_char c then c # sub_disallowed cs
      else CHR ''_'' # sub_disallowed (dropWhile (\<lambda>d. \<not> is_id_char d) cs))"
  by pat_completeness auto
termination
  by (relation "measure length") (auto simp: le_imp_less_Suc length_dropWhile_le)

definition sanitize_id :: "string \<Rightarrow> string" where
  "sanitize_id raw_id =
     (let base = (if match_letter_us raw_id then raw_id else ''N'' @ raw_id)
      in sub_disallowed base)"

subsection \<open>The sanitizer as the specification words it\<close>

text \<open>
  The maximal runs of a list with respect to a predicate: each run is the longest block
  on which the predicate keeps the value it has on the block's first element.
\<close>

function runs_of :: "('a \<Rightarrow> bool) \<Rightarrow> 'a list \<Rightarrow> 'a list list" where
  "runs_of P [] = []"
| "runs_of P (x # xs) =
     (x # takeWhile (\<lambda>y. P y = P x) xs) # runs_of P (dropWhile (\<lambda>y. P y = P x) xs)"
  by pat_completeness auto
termination
  by (relation "measure (\<lambda>(P, xs). length xs)") (auto simp: le_imp_less_Suc length_dropWhile_le)

definition spec_base :: "string \<Rightarrow> string" where
  \<comment> \<open>the input itself when it starts with a letter or underscore, else the fixed
     letter followed by the input\<close>
  "spec_base raw_id = (if match_letter_us raw_id then raw_id else CHR ''N'' # raw_id)"

definition spec_sanitize :: "string \<Rightarrow> string" where
  \<comment> \<open>every run of one or more disallowed characters of the base string becomes a
     single underscore, every other run is kept\<close>
  "spec_sanitize raw_id =
     concat (map (\<lambda>r. if is_id_char (hd r) then r else ''_'') (runs_of is_id_char (spec_base raw_id)))"

definition valid_identifier :: "string \<Rightarrow> bool" where
  \<comment> \<open>starts with a letter or underscore; only letters, digits and underscores\<close>
  "valid_identifier s = (match_letter_us s \<and> list_all is_id_char s)"

section \<open>The board export and the graph\<close>

text \<open>
  The records of the export are JSON objects read with \<^verbatim>\<open>dict.get\<close>; a field that may be
  missing is an option. \<open>item_content\<close> and \<open>item_shape\<close> are the entries \<^verbatim>\<open>content\<close> and
  \<^verbatim>\<open>shape\<close> of the item's \<^verbatim>\<open>data\<close> object.
\<close>

record raw_item =
  item_id :: "string option"
  item_type :: "string option"
  item_content :: "string option"
  item_shape :: "string option"

record raw_connector =
  start_item_id :: "string option"
  end_item_id :: "string option"
  captions :: "string option list"

record board =
  items :: "raw_item list"
  connectors :: "raw_connector list"

record node_info =
  ni_text :: string
  ni_mermaid_shape :: string
  ni_type :: string

text \<open>
  A Python dictionary keeps its keys in insertion order; it is an association list with
  distinct keys. Storing under a key that is present replaces the value in place.
\<close>

type_synonym nodes = "(string \<times> node_info) list"

type_synonym connection = "string \<times> string \<times> string"

fun dict_set :: "('k \<times> 'v) list \<Rightarrow> 'k \<Rightarrow> 'v \<Rightarrow> ('k \<times> 'v) list" where
  "dict_set [] k v = [(k, v)]"
| "dict_set ((k', v') # kvs) k v =
     (if k' = k then (k, v) # kvs else (k', v') # dict_set kvs k v)"

definition dict_keys :: "('k \<times> 'v) list \<Rightarrow> 'k list" where
  "dict_keys d = map fst d"

definition dict_get :: "('k \<times> 'v) list \<Rightarrow> 'k \<Rightarrow> 'v \<Rightarrow> 'v" where
  \<comment> \<open>\<^verbatim>\<open>d.get(k, default)\<close>\<close>
  "dict_get d k dflt = (case map_of d k of None \<Rightarrow> dflt | Some v \<Rightarrow> v)"

section \<open>Extraction of nodes and connections\<close>

definition conclusion_text_map :: "(string \<times> string) list" where
  "conclusion_text_map =
     [(''3458764636475175262'', ''LREC Approval required''),
      (''3458764635302888442'', ''Continue to Research''),
      (''3458764636474796545'', ''Apply via DAP-R''),
      (''3458764636474951140'', ''Contact PO HRA approval required''),
      (''3458764636474951421'', ''Contact PO HRA approval required''),
      (''3458764636474951443'', ''Seek Advice''),
      (''3458764636475175178'', ''Seek Advice''),
      (''3458764636475175411'', ''Ethics approval required'')]"

definition classify :: "string \<Rightarrow> raw_item \<Rightarrow> node_info option" where
  \<comment> \<open>the node type and content of an item of one of the three kept kinds; \<open>None\<close> is
     the \<^verbatim>\<open>continue\<close> that skips a title text\<close>
  "classify iid item =
     (let node_info = \<lparr>ni_text = [], ni_mermaid_shape = ''rectangle'', ni_type = ''unknown''\<rparr>
      in
      if item_type item = Some ''shape'' then
        (let content = html_to_text_opt (item_content item);
             shape_type = (case item_shape item of None \<Rightarrow> ''rectangle'' | Some s \<Rightarrow> s)
         in
         if shape_type = ''rhombus'' then
           Some \<lparr>ni_text = content, ni_mermaid_shape = ''diamond'', ni_type = ''question''\<rparr>
         else if iid = ''3458764635301875090'' then
           Some \<lparr>ni_text = ''Start'', ni_mermaid_shape = ''stadium'', ni_type = ''start''\<rparr>
         else if content \<noteq> [] then
           Some \<lparr>ni_text = content, ni_mermaid_shape = ''rectangle'', ni_type = ''process''\<rparr>
         else
           Some \<lparr>ni_text = dict_get conclusion_text_map iid ''Conclusion'',
                 ni_mermaid_shape = ''stadium'', ni_type = ''conclusion''\<rparr>)
      else if item_type item = Some ''sticky_note'' then
        (let content = html_to_text_opt (item_content item)
         in Some \<lparr>ni_text = (if content \<noteq> [] then content else ''Note''),
                  ni_mermaid_shape = ''rectangle'', ni_type = ''note''\<rparr>)
      else if item_type item = Some ''text'' then
        (let content = html_to_text_opt (item_content item)
         in if content \<noteq> [] \<and> \<not> startswith (lower content) ''decision tree''
            then Some \<lparr>ni_text = content, ni_mermaid_shape = ''rectangle'', ni_type = ''text''\<rparr>
            else None)
      else Some node_info)"

definition add_item :: "nodes \<Rightarrow> raw_item \<Rightarrow> nodes" where
  \<comment> \<open>one round of the loop over the items\<close>
  "add_item nodes item =
     (case item_id item of
        None \<Rightarrow> nodes
      | Some iid \<Rightarrow>
          if iid = [] then nodes
          else if item_type item \<notin> set [Some ''shape'', Some ''sticky_note'', Some ''text'']
          then nodes
          else
            (case classify iid item of
               None \<Rightarrow> nodes
             | Some node_info \<Rightarrow>
                 if (ni_text node_info \<noteq> [] \<and> ni_text node_info \<noteq> ''shape'')
                    \<or> iid \<in> set (dict_keys conclusion_text_map)
                 then dict_set nodes iid node_info
                 else nodes))"

definition caption_label :: "string option list \<Rightarrow> string" where
  \<comment> \<open>the connection label from the captions\<close>
  "caption_label caps =
     (if caps \<noteq> []
      then join '' / '' (filter (\<lambda>t. t \<noteq> []) (map html_to_text_opt caps))
      else [])"

definition add_connection :: "connection list \<Rightarrow> raw_connector \<Rightarrow> connection list" where
  \<comment> \<open>one round of the loop over the connectors\<close>
  "add_connection connections conn =
     (case (start_item_id conn, end_item_id conn) of
        (Some start_id, Some end_id) \<Rightarrow>
          if start_id = [] \<or> end_id = [] then connections
          else connections @ [(start_id, end_id, caption_label (captions conn))]
      | _ \<Rightarrow> connections)"

definition extract_nodes_and_connections :: "board \<Rightarrow> nodes \<times> connection list" where
  "extract_nodes_and_connections data =
     (foldl add_item [] (items data), foldl add_connection [] (connectors data))"

section \<open>Node shapes and labels\<close>

definition strip_brackets :: "string \<Rightarrow> string" where
  \<comment> \<open>\<^verbatim>\<open>re.sub(r'[{}()\[\]]', '', s)\<close>\<close>
  "strip_brackets s = filter (\<lambda>c. c \<notin> set ''{}()[]'') s"

definition clean_node_text :: "string \<Rightarrow> string" where
  \<comment> \<open>the text of a node after the cleaning of \<^verbatim>\<open>get_mermaid_shape\<close>, before the cut\<close>
  "clean_node_text text =
     strip_brackets
       (strip (py_replace ''>'' ''&gt;'' (py_replace ''<'' ''&lt;''
          (py_replace [newline] '' '' (py_replace [dquote] [squote] text)))))"

definition safe_text :: "string \<Rightarrow> string" where
  \<comment> \<open>the label of a node as \<^verbatim>\<open>get_mermaid_shape\<close> writes it between the quotes\<close>
  "safe_text text =
     (let t = clean_node_text text
      in if length t > 50 then take 47 t @ ''...'' else t)"

definition get_mermaid_shape :: "node_info \<Rightarrow> string \<Rightarrow> string \<times> string" where
  "get_mermaid_shape node_info text =
     (let shape_type = ni_mermaid_shape node_info;
          quoted = [dquote] @ safe_text text @ [dquote]
      in if shape_type = ''diamond'' then (''{'', quoted @ ''}'')
         else if shape_type = ''stadium'' then (''(['', quoted @ ''])'')
         else (''['', quoted @ '']''))"

definition clean_edge_text :: "string \<Rightarrow> string" where
  \<comment> \<open>the label of an edge after the cleaning of \<^verbatim>\<open>generate_mermaid\<close>, before the cut\<close>
  "clean_edge_text label =
     strip_brackets
       (strip (py_replace ''>'' [] (py_replace ''<'' [] (py_replace [dquote] [squote] label))))"

definition clean_label :: "string \<Rightarrow> string" where
  \<comment> \<open>the label of an edge as \<^verbatim>\<open>generate_mermaid\<close> writes it between the quotes\<close>
  "clean_label label =
     (let t = clean_edge_text label
      in if length t > 30 then take 27 t @ ''...'' else t)"

section \<open>The start node\<close>

definition target_ids :: "connection list \<Rightarrow> string set" where
  "target_ids connections = foldl (\<lambda>acc (start_id, end_id, label). insert end_id acc) {} connections"

definition is_start_like :: "node_info \<Rightarrow> bool" where
  "is_start_like node_info =
     (ni_type node_info = ''start'' \<or> contains ''start'' (lower (ni_text node_info)))"

definition find_start_node :: "nodes \<Rightarrow> connection list \<Rightarrow> string option" where
  "find_start_node nodes connections =
     (let start_candidates = filter (\<lambda>(node_id, node_info). node_id \<notin> target_ids connections) nodes
      in case List.find (\<lambda>(node_id, node_info). is_start_like node_info) start_candidates of
           Some (node_id, node_info) \<Rightarrow> Some node_id
         | None \<Rightarrow>
             (case start_candidates of
                (node_id, node_info) # _ \<Rightarrow> Some node_id
              | [] \<Rightarrow> (case nodes of [] \<Rightarrow> None | (node_id, node_info) # _ \<Rightarrow> Some node_id)))"

section \<open>The diagram\<close>

text \<open>
  What a run of the generator leaves behind: the lines it printed and the files it
  wrote, each with its name and content.
\<close>

record run_output =
  printed :: "string list"
  written :: "(string \<times> string) list"

definition node_line :: "(string \<times> string) list \<Rightarrow> string \<Rightarrow> node_info \<Rightarrow> string" where
  "node_line id_map node_id node_info =
     (let mermaid_id = dict_get id_map node_id [];
          (shape_start, shape_end) = get_mermaid_shape node_info (ni_text node_info)
      in ''    '' @ mermaid_id @ shape_start @ shape_end)"

definition edge_line :: "string \<Rightarrow> string \<Rightarrow> string \<Rightarrow> string" where
  "edge_line start_mermaid end_mermaid label =
     (if label \<noteq> []
      then ''    '' @ start_mermaid @ '' -->|'' @ [dquote] @ clean_label label @ [dquote] @ ''| ''
             @ end_mermaid
      else ''    '' @ start_mermaid @ '' --> '' @ end_mermaid)"

fun connection_lines :: "(string \<times> string) list \<Rightarrow> connection list \<Rightarrow> string list" where
  "connection_lines id_map [] = []"
| "connection_lines id_map ((start_id, end_id, label) # rest) =
     (if start_id \<notin> set (dict_keys id_map) \<or> end_id \<notin> set (dict_keys id_map)
      then connection_lines id_map rest
      else edge_line (dict_get id_map start_id []) (dict_get id_map end_id []) label
             # connection_lines id_map rest)"

definition id_map_of :: "nodes \<Rightarrow> (string \<times> string) list" where
  \<comment> \<open>the dictionary from each original identifier to its sanitized identifier\<close>
  "id_map_of nodes = map (\<lambda>(orig_id, node_info). (orig_id, sanitize_id orig_id)) nodes"

definition mermaid_lines :: "nodes \<Rightarrow> connection list \<Rightarrow> string list" where
  "mermaid_lines nodes connections =
     (let id_map = id_map_of nodes;
          start_node_id = find_start_node nodes connections;
          start_lines =
            (case start_node_id of
               None \<Rightarrow> []
             | Some sid \<Rightarrow>
                 (case map_of nodes sid of
                    None \<Rightarrow> []
                  | Some node_info \<Rightarrow> if sid \<noteq> [] then [node_line id_map sid node_info] else []));
          other_lines =
            map (\<lambda>(node_id, node_info). node_line id_map node_id node_info)
              (filter (\<lambda>(node_id, node_info). Some node_id \<noteq> start_node_id) nodes)
      in [''flowchart TD''] @ start_lines @ other_lines @ [[]] @ connection_lines id_map connections)"

definition generate_mermaid :: "board \<Rightarrow> string \<Rightarrow> run_output" where
  "generate_mermaid data output_file =
     (let (nodes, connections) = extract_nodes_and_connections data
      in if nodes = [] then \<lparr>printed = [''No nodes found!''], written = []\<rparr>
         else
           (let mermaid_content = join [newline] (mermaid_lines nodes connections);
                md_file = py_replace ''.mmd'' ''.md'' output_file
            in \<lparr>printed =
                   [''Generated fixed Mermaid diagram: '' @ output_file,
                    ''Nodes: '' @ show_nat (length nodes) @ '', Connections: ''
                      @ show_nat (length connections),
                    ''Also generated: '' @ md_file],
                 written =
                   [(output_file, mermaid_content),
                    (md_file,
                     ''# Fixed Decision Tree Diagram'' @ [newline, newline] @ ''```mermaid''
                       @ [newline] @ mermaid_content @ [newline] @ ''```'' @ [newline])]\<rparr>))"

section \<open>Properties of the identifier sanitizer\<close>

lemma is_id_char_underscore: "is_id_char CHR ''_''"
  by (simp add: is_id_char_def is_letter_us_def)

lemma is_letter_us_N: "is_letter_us CHR ''N''"
  by (simp add: is_letter_us_def)

lemma is_letter_us_id_char: "is_letter_us c \<Longrightarrow> is_id_char c"
  by (simp add: is_id_char_def)

lemma sub_disallowed_all_id: "list_all is_id_char (sub_disallowed s)"
  by (induction s rule: sub_disallowed.induct) (simp_all add: is_id_char_underscore)

lemma sub_disallowed_head:
  "match_letter_us s \<Longrightarrow> match_letter_us (sub_disallowed s)"
  by (cases s) (auto simp: match_letter_us_def is_letter_us_id_char)

lemma sub_disallowed_clean: "list_all is_id_char s \<Longrightarrow> sub_disallowed s = s"
  by (induction s) simp_all

lemma sub_disallowed_takeWhile:
  "sub_disallowed s = takeWhile is_id_char s @ sub_disallowed (dropWhile is_id_char s)"
  by (induction s) simp_all

lemma runs_of_concat: "concat (runs_of P xs) = xs"
  by (induction P xs rule: runs_of.induct) simp_all

lemma runs_of_nonempty: "r \<in> set (runs_of P xs) \<Longrightarrow> r \<noteq> []"
  by (induction P xs rule: runs_of.induct) auto

lemma runs_of_uniform: "r \<in> set (runs_of P xs) \<Longrightarrow> y \<in> set r \<Longrightarrow> P y = P (hd r)"
  by (induction P xs rule: runs_of.induct) (auto dest: set_takeWhileD)

lemma sub_disallowed_runs:
  "sub_disallowed s =
     concat (map (\<lambda>r. if is_id_char (hd r) then r else ''_'') (runs_of is_id_char s))"
proof (induction "length s" arbitrary: s rule: less_induct)
  case less
  show ?case
  proof (cases s)
    case Nil
    then show ?thesis by simp
  next
    case (Cons c cs)
    show ?thesis
    proof (cases "is_id_char c")
      case True
      have dw: "dropWhile (\<lambda>y. is_id_char y = is_id_char c) cs = dropWhile is_id_char cs"
        and tw: "takeWhile (\<lambda>y. is_id_char y = is_id_char c) cs = takeWhile is_id_char cs"
        using True by simp_all
      have "length (dropWhile is_id_char cs) < length s"
        using Cons by (simp add: le_imp_less_Suc length_dropWhile_le)
      from less [OF this] show ?thesis
        using True Cons sub_disallowed_takeWhile [of cs] by (simp add: dw tw)
    next
      case False
      have dw: "dropWhile (\<lambda>y. is_id_char y = is_id_char c) cs =
          dropWhile (\<lambda>d. \<not> is_id_char d) cs"
        using False by simp
      have "length (dropWhile (\<lambda>d. \<not> is_id_char d) cs) < length s"
        using Cons by (simp add: le_imp_less_Suc length_dropWhile_le)
      from less [OF this] show ?thesis
        using False Cons by (simp add: dw)
    qed
  qed
qed

lemma sanitize_id_base: "sanitize_id s = sub_disallowed (spec_base s)"
  by (simp add: sanitize_id_def spec_base_def)

lemma spec_base_head: "match_letter_us (spec_base s)"
  by (simp add: spec_base_def match_letter_us_def is_letter_us_N)

text \<open>
  C8. Whatever the input, the sanitized identifier starts with a letter or an underscore
  and holds only letters, digits and underscores. It is the base string, the input
  itself or the letter N followed by the input when the input does not start with a
  letter or underscore, in which every maximal run of characters other than letters,
  digits and underscores is replaced by one underscore.
\<close>

theorem sanitize_id_valid:
  "valid_identifier (sanitize_id s) \<and> sanitize_id s = spec_sanitize s \<and>
   spec_base s = (if match_letter_us s then s else CHR ''N'' # s)"
proof -
  have "match_letter_us (sanitize_id s)"
    by (simp add: sanitize_id_base sub_disallowed_head spec_base_head)
  moreover have "list_all is_id_char (sanitize_id s)"
    by (simp add: sanitize_id_base sub_disallowed_all_id)
  moreover have "sanitize_id s = spec_sanitize s"
    unfolding sanitize_id_base spec_sanitize_def by (rule sub_disallowed_runs)
  ultimately show ?thesis
    by (simp add: valid_identifier_def spec_base_def)
qed

theorem sanitize_id_valid_witness:
  "valid_identifier ''N34_58_7_'' \<and> ''N34_58_7_'' = spec_sanitize ''34--58 7!''"
proof -
  have e: "sanitize_id ''34--58 7!'' = ''N34_58_7_''"
    by (simp add: sanitize_id_def match_letter_us_def is_letter_us_def is_id_char_def
        is_digit_def)
  have "valid_identifier (sanitize_id ''34--58 7!'') \<and>
      sanitize_id ''34--58 7!'' = spec_sanitize ''34--58 7!''"
    using sanitize_id_valid [of "''34--58 7!''"] by blast
  then show ?thesis
    unfolding e .
qed

text \<open>
  C5, as the specification states it, fails: two distinct identifiers that differ only in
  characters outside the allowed class, or only by the prefix the sanitizer adds, get the
  same sanitized identifier.
\<close>

theorem sanitize_id_collision:
  "''a-b'' \<noteq> ''a_b'' \<and> sanitize_id ''a-b'' = sanitize_id ''a_b'' \<and>
   ''1'' \<noteq> ''N1'' \<and> sanitize_id ''1'' = sanitize_id ''N1''"
  by (simp add: sanitize_id_def match_letter_us_def is_letter_us_def is_id_char_def
      is_digit_def)

text \<open>
  C5, amended. The sanitizer is a function of its input, and it is injective on the
  identifiers that hold only letters, digits and underscores and that agree on whether
  they start with a letter or underscore: two distinct such identifiers keep distinct
  sanitized identifiers.
\<close>

theorem sanitize_id_inj:
  assumes "list_all is_id_char a" and "list_all is_id_char b"
    and "match_letter_us a = match_letter_us b" and "a \<noteq> b"
  shows "sanitize_id a \<noteq> sanitize_id b"
proof -
  have "list_all is_id_char (spec_base a)" "list_all is_id_char (spec_base b)"
    using assms(1,2) by (simp_all add: spec_base_def is_letter_us_id_char is_letter_us_N)
  then have "sanitize_id a = spec_base a" "sanitize_id b = spec_base b"
    by (simp_all add: sanitize_id_base sub_disallowed_clean)
  then show ?thesis
    using assms(3,4) by (simp add: spec_base_def)
qed

theorem sanitize_id_inj_witness:
  "sanitize_id ''3458764636475175262'' \<noteq> sanitize_id ''3458764635302888442''"
proof -
  have "list_all is_id_char ''3458764636475175262''"
    and "list_all is_id_char ''3458764635302888442''"
    and "match_letter_us ''3458764636475175262'' = match_letter_us ''3458764635302888442''"
    and "''3458764636475175262'' \<noteq> ''3458764635302888442''"
    by (simp_all add: is_id_char_def is_digit_def is_letter_us_def match_letter_us_def)
  then show ?thesis
    by (rule sanitize_id_inj)
qed

section \<open>Properties of the start-node resolver\<close>

lemma find_filter: "List.find P (filter Q xs) = List.find (\<lambda>x. Q x \<and> P x) xs"
  by (induction xs) auto

lemma target_ids_set: "target_ids connections = (\<lambda>(s, e, l). e) ` set connections"
proof -
  have "foldl (\<lambda>acc (start_id, end_id, label). insert end_id acc) A connections =
      A \<union> (\<lambda>(s, e, l). e) ` set connections" for A
    by (induction connections arbitrary: A) auto
  then show ?thesis by (simp add: target_ids_def)
qed

text \<open>
  C1. The resolver returns null on an empty node set, and on a non-empty node set it
  returns one identifier, which is a key of the node set, whatever the edges are.
\<close>

theorem find_start_node_total:
  "(nodes = [] \<longrightarrow> find_start_node nodes connections = None) \<and>
   (nodes \<noteq> [] \<longrightarrow>
      (\<exists>node_id. find_start_node nodes connections = Some node_id \<and>
         node_id \<in> set (dict_keys nodes)))"
proof (intro conjI impI)
  assume "nodes = []"
  then show "find_start_node nodes connections = None"
    by (simp add: find_start_node_def)
next
  assume ne: "nodes \<noteq> []"
  define cands where
    "cands = filter (\<lambda>(node_id, node_info). node_id \<notin> target_ids connections) nodes"
  have sub: "set cands \<subseteq> set nodes"
    by (auto simp: cands_def)
  show "\<exists>node_id. find_start_node nodes connections = Some node_id \<and>
      node_id \<in> set (dict_keys nodes)"
  proof (cases "List.find (\<lambda>(node_id, node_info). is_start_like node_info) cands")
    case (Some p)
    then have "p \<in> set cands"
      by (auto simp: find_Some_iff dest: nth_mem)
    with sub have "fst p \<in> set (dict_keys nodes)"
      by (auto simp: dict_keys_def)
    moreover have "find_start_node nodes connections = Some (fst p)"
      using Some by (simp add: find_start_node_def cands_def [symmetric] split: prod.splits)
    ultimately show ?thesis by blast
  next
    case None
    show ?thesis
    proof (cases cands)
      case Nil
      have "find_start_node nodes connections =
          (case nodes of [] \<Rightarrow> None | (node_id, node_info) # _ \<Rightarrow> Some node_id)"
        using None Nil by (simp add: find_start_node_def cands_def [symmetric])
      then show ?thesis
        using ne by (cases nodes) (auto simp: dict_keys_def)
    next
      case (Cons p ps)
      then have "p \<in> set nodes"
        using sub by auto
      then have "fst p \<in> set (dict_keys nodes)"
        by (auto simp: dict_keys_def)
      moreover have "find_start_node nodes connections = Some (fst p)"
        using None Cons
        by (simp add: find_start_node_def cands_def [symmetric] split: prod.splits)
      ultimately show ?thesis by blast
    qed
  qed
qed

theorem find_start_node_total_witness:
  "find_start_node [] [(''a'', ''b'', [])] = None \<and>
   (\<exists>node_id. find_start_node
        [(''b'', \<lparr>ni_text = ''Yes'', ni_mermaid_shape = ''rectangle'', ni_type = ''process''\<rparr>)]
        [(''a'', ''b'', [])] = Some node_id \<and>
      node_id \<in> set (dict_keys
        [(''b'', \<lparr>ni_text = ''Yes'', ni_mermaid_shape = ''rectangle'', ni_type = ''process''\<rparr>)]))"
  using find_start_node_total [of "[]" "[(''a'', ''b'', [])]"]
    find_start_node_total
      [of "[(''b'', \<lparr>ni_text = ''Yes'', ni_mermaid_shape = ''rectangle'', ni_type = ''process''\<rparr>)]"
        "[(''a'', ''b'', [])]"]
  by simp

lemmas eval_defs = html_to_text_def html_to_text_opt_def unescape_def strip_def
  tag_at_def br_at_def isspace_def newline_def dquote_def squote_def

text \<open>
  C2, as the specification states it, fails: a node of another role whose label contains
  the word start, placed before the node of role start, is chosen although the node of
  role start has no incoming edge. The two nodes are what the extraction makes of a board
  with a shape that reads Restart before the designated start shape.
\<close>

theorem find_start_node_role_start_counterexample:
  "extract_nodes_and_connections
     \<lparr>items =
        [\<lparr>item_id = Some ''77'', item_type = Some ''shape'', item_content = Some ''Restart'',
          item_shape = Some ''rectangle''\<rparr>,
         \<lparr>item_id = Some ''3458764635301875090'', item_type = Some ''shape'',
          item_content = Some ''Begin'', item_shape = Some ''circle''\<rparr>],
      connectors = []\<rparr> =
     ([(''77'', \<lparr>ni_text = ''Restart'', ni_mermaid_shape = ''rectangle'', ni_type = ''process''\<rparr>),
       (''3458764635301875090'',
        \<lparr>ni_text = ''Start'', ni_mermaid_shape = ''stadium'', ni_type = ''start''\<rparr>)], []) \<and>
   ''3458764635301875090'' \<notin> target_ids [] \<and>
   find_start_node
     [(''77'', \<lparr>ni_text = ''Restart'', ni_mermaid_shape = ''rectangle'', ni_type = ''process''\<rparr>),
      (''3458764635301875090'',
       \<lparr>ni_text = ''Start'', ni_mermaid_shape = ''stadium'', ni_type = ''start''\<rparr>)] [] = Some ''77''"
  by (simp add: extract_nodes_and_connections_def add_item_def classify_def eval_defs
      dict_keys_def conclusion_text_map_def find_start_node_def target_ids_def
      is_start_like_def lower_def lower_char_def startswith_def)

text \<open>
  C2, amended. Among the nodes without an incoming edge, the first in insertion order that
  has role start or whose label contains start in any case is the resolver's choice. So a
  node of role start without incoming edge is chosen when no earlier node without incoming
  edge has role start or such a label.
\<close>

theorem find_start_node_first_start_like:
  assumes "i < length nodes"
    and "fst (nodes ! i) \<notin> target_ids connections"
    and "is_start_like (snd (nodes ! i))"
    and "\<forall>j<i. fst (nodes ! j) \<in> target_ids connections \<or> \<not> is_start_like (snd (nodes ! j))"
  shows "find_start_node nodes connections = Some (fst (nodes ! i))"
proof -
  let ?P = "\<lambda>x. (case x of (node_id, node_info) \<Rightarrow> node_id \<notin> target_ids connections) \<and>
      (case x of (node_id, node_info) \<Rightarrow> is_start_like node_info)"
  have "List.find ?P nodes = Some (nodes ! i)"
    unfolding find_Some_iff using assms by (auto simp: case_prod_beta)
  then show ?thesis
    by (simp add: find_start_node_def find_filter split: prod.splits)
qed

theorem find_start_node_first_start_like_witness:
  "find_start_node
     [(''q'', \<lparr>ni_text = ''Is it?'', ni_mermaid_shape = ''diamond'', ni_type = ''question''\<rparr>),
      (''s'', \<lparr>ni_text = ''Begin'', ni_mermaid_shape = ''stadium'', ni_type = ''start''\<rparr>),
      (''t'', \<lparr>ni_text = ''Start here'', ni_mermaid_shape = ''rectangle'', ni_type = ''note''\<rparr>)]
     [(''s'', ''q'', ''Yes'')] = Some ''s''"
proof -
  let ?nodes =
    "[(''q'', \<lparr>ni_text = ''Is it?'', ni_mermaid_shape = ''diamond'', ni_type = ''question''\<rparr>),
      (''s'', \<lparr>ni_text = ''Begin'', ni_mermaid_shape = ''stadium'', ni_type = ''start''\<rparr>),
      (''t'', \<lparr>ni_text = ''Start here'', ni_mermaid_shape = ''rectangle'', ni_type = ''note''\<rparr>)]"
  let ?conns = "[(''s'', ''q'', ''Yes'')]"
  have 1: "1 < length ?nodes"
    by simp
  have 2: "fst (?nodes ! 1) \<notin> target_ids ?conns"
    by (simp add: target_ids_def)
  have 3: "is_start_like (snd (?nodes ! 1))"
    by (simp add: is_start_like_def)
  have 4: "\<forall>j<1. fst (?nodes ! j) \<in> target_ids ?conns \<or> \<not> is_start_like (snd (?nodes ! j))"
    by (simp add: target_ids_def)
  from find_start_node_first_start_like [OF 1 2 3 4] show ?thesis
    by simp
qed

section \<open>Properties of the extraction and of the diagram\<close>

lemma dict_keys_id_map: "dict_keys (id_map_of nodes) = dict_keys nodes"
  by (induction nodes) (auto simp: dict_keys_def id_map_of_def)

lemma dict_get_id_map:
  "k \<in> set (dict_keys nodes) \<Longrightarrow> dict_get (id_map_of nodes) k d = sanitize_id k"
  by (induction nodes) (auto simp: dict_keys_def id_map_of_def dict_get_def)

lemma connection_lines_append:
  "connection_lines idm (xs @ ys) = connection_lines idm xs @ connection_lines idm ys"
  by (induction idm xs rule: connection_lines.induct) auto

lemma connection_lines_sound:
  "l \<in> set (connection_lines idm conns) \<Longrightarrow>
   \<exists>(s, e, lab) \<in> set conns. s \<in> set (dict_keys idm) \<and> e \<in> set (dict_keys idm) \<and>
      l = edge_line (dict_get idm s []) (dict_get idm e []) lab"
  by (induction idm conns rule: connection_lines.induct) (auto split: if_splits)

lemma connection_lines_length:
  "length (connection_lines idm conns) =
   length (filter (\<lambda>(s, e, lab). s \<in> set (dict_keys idm) \<and> e \<in> set (dict_keys idm)) conns)"
  by (induction idm conns rule: connection_lines.induct) auto

text \<open>
  C3. Every edge line of the diagram is the line of a connection whose source and target
  both key the node dictionary, and there are as many edge lines as such connections. A
  connection whose source or target is not a key adds no line, wherever it stands in the
  sequence; the model has no failing branch there. The edge lines are the end of the
  document's lines, after the header, the node lines and the empty line. The node
  dictionary is made from the items alone: the connectors of the board do not change it.
\<close>

theorem edges_sound:
  "(\<forall>l \<in> set (connection_lines (id_map_of nodes) connections).
      \<exists>(s, e, lab) \<in> set connections.
        s \<in> set (dict_keys nodes) \<and> e \<in> set (dict_keys nodes) \<and>
        l = edge_line (sanitize_id s) (sanitize_id e) lab) \<and>
   length (connection_lines (id_map_of nodes) connections) =
     length (filter (\<lambda>(s, e, lab). s \<in> set (dict_keys nodes) \<and> e \<in> set (dict_keys nodes))
       connections) \<and>
   (start_id \<notin> set (dict_keys nodes) \<or> end_id \<notin> set (dict_keys nodes) \<longrightarrow>
      connection_lines (id_map_of nodes) (before @ [(start_id, end_id, label)] @ after) =
      connection_lines (id_map_of nodes) (before @ after)) \<and>
   (\<exists>node_lines. mermaid_lines nodes connections =
      [''flowchart TD''] @ node_lines @ [[]] @ connection_lines (id_map_of nodes) connections) \<and>
   fst (extract_nodes_and_connections \<lparr>items = its, connectors = conns\<rparr>) =
     fst (extract_nodes_and_connections \<lparr>items = its, connectors = []\<rparr>)"
proof (intro conjI ballI impI)
  fix l
  assume "l \<in> set (connection_lines (id_map_of nodes) connections)"
  from connection_lines_sound [OF this]
  obtain s e lab where m: "(s, e, lab) \<in> set connections"
    and k: "s \<in> set (dict_keys nodes)" "e \<in> set (dict_keys nodes)"
    and l: "l = edge_line (dict_get (id_map_of nodes) s []) (dict_get (id_map_of nodes) e []) lab"
    by (auto simp: dict_keys_id_map)
  from l k have "l = edge_line (sanitize_id s) (sanitize_id e) lab"
    by (simp add: dict_get_id_map)
  with m k show "\<exists>(s, e, lab) \<in> set connections.
      s \<in> set (dict_keys nodes) \<and> e \<in> set (dict_keys nodes) \<and>
      l = edge_line (sanitize_id s) (sanitize_id e) lab"
    by blast
next
  show "length (connection_lines (id_map_of nodes) connections) =
      length (filter (\<lambda>(s, e, lab). s \<in> set (dict_keys nodes) \<and> e \<in> set (dict_keys nodes))
        connections)"
    by (simp add: connection_lines_length dict_keys_id_map)
next
  assume "start_id \<notin> set (dict_keys nodes) \<or> end_id \<notin> set (dict_keys nodes)"
  then show "connection_lines (id_map_of nodes) (before @ [(start_id, end_id, label)] @ after) =
      connection_lines (id_map_of nodes) (before @ after)"
    by (auto simp: connection_lines_append dict_keys_id_map)
next
  show "\<exists>node_lines. mermaid_lines nodes connections =
      [''flowchart TD''] @ node_lines @ [[]] @ connection_lines (id_map_of nodes) connections"
    by (simp add: mermaid_lines_def Let_def)
next
  show "fst (extract_nodes_and_connections \<lparr>items = its, connectors = conns\<rparr>) =
      fst (extract_nodes_and_connections \<lparr>items = its, connectors = []\<rparr>)"
    by (simp add: extract_nodes_and_connections_def)
qed

theorem edges_sound_witness:
  "length (connection_lines
      (id_map_of
        [(''a'', \<lparr>ni_text = ''Hello'', ni_mermaid_shape = ''rectangle'', ni_type = ''process''\<rparr>),
         (''b'', \<lparr>ni_text = ''Bye'', ni_mermaid_shape = ''rectangle'', ni_type = ''process''\<rparr>)])
      [(''a'', ''b'', ''Yes''), (''a'', ''zz'', [])]) = 1 \<and>
   connection_lines
      (id_map_of
        [(''a'', \<lparr>ni_text = ''Hello'', ni_mermaid_shape = ''rectangle'', ni_type = ''process''\<rparr>),
         (''b'', \<lparr>ni_text = ''Bye'', ni_mermaid_shape = ''rectangle'', ni_type = ''process''\<rparr>)])
      [(''a'', ''zz'', [])] = []"
  using edges_sound
    [of "[(''a'', \<lparr>ni_text = ''Hello'', ni_mermaid_shape = ''rectangle'', ni_type = ''process''\<rparr>),
          (''b'', \<lparr>ni_text = ''Bye'', ni_mermaid_shape = ''rectangle'', ni_type = ''process''\<rparr>)]"
      "[(''a'', ''b'', ''Yes''), (''a'', ''zz'', [])]" "''a''" "''zz''" "[]" "[]" "[]" "[]" "[]"]
  by (simp add: dict_keys_def)

lemma map_of_dict_set: "map_of (dict_set d k v) k = Some v"
  by (induction d k v rule: dict_set.induct) auto

lemma dict_keys_dict_set: "set (dict_keys (dict_set d k v)) = insert k (set (dict_keys d))"
  by (induction d k v rule: dict_set.induct) (auto simp: dict_keys_def)

text \<open>
  C6, as the specification states it, fails: a rhombus whose normalized content is empty
  is classified as a question with the empty label, and then the guard that keeps only
  nodes with a meaningful text drops it, so the node dictionary stays empty.
\<close>

theorem rhombus_empty_counterexample:
  "classify ''q1'' \<lparr>item_id = Some ''q1'', item_type = Some ''shape'', item_content = Some [],
      item_shape = Some ''rhombus''\<rparr> =
     Some \<lparr>ni_text = [], ni_mermaid_shape = ''diamond'', ni_type = ''question''\<rparr> \<and>
   extract_nodes_and_connections
     \<lparr>items = [\<lparr>item_id = Some ''q1'', item_type = Some ''shape'', item_content = Some [],
        item_shape = Some ''rhombus''\<rparr>], connectors = []\<rparr> = ([], [])"
  by (simp add: extract_nodes_and_connections_def add_item_def classify_def eval_defs
      dict_keys_def conclusion_text_map_def)

text \<open>
  C6, amended. An item of kind shape and sub-kind rhombus with a non-empty identifier is
  classified with role question, the diamond shape and its normalized content as label.
  The node is stored under the identifier when the label is neither empty nor the word
  shape, or when the identifier is a key of the conclusion table; otherwise the node
  dictionary is left as it is.
\<close>

theorem rhombus_question:
  assumes "item_id item = Some iid" and "iid \<noteq> []"
    and "item_type item = Some ''shape''" and "item_shape item = Some ''rhombus''"
  shows "classify iid item =
      Some \<lparr>ni_text = html_to_text_opt (item_content item), ni_mermaid_shape = ''diamond'',
        ni_type = ''question''\<rparr> \<and>
    (if (html_to_text_opt (item_content item) \<noteq> [] \<and>
         html_to_text_opt (item_content item) \<noteq> ''shape'') \<or>
        iid \<in> set (dict_keys conclusion_text_map)
     then map_of (add_item nodes item) iid =
        Some \<lparr>ni_text = html_to_text_opt (item_content item), ni_mermaid_shape = ''diamond'',
          ni_type = ''question''\<rparr>
     else add_item nodes item = nodes)"
proof -
  have c: "classify iid item =
      Some \<lparr>ni_text = html_to_text_opt (item_content item), ni_mermaid_shape = ''diamond'',
        ni_type = ''question''\<rparr>"
    using assms by (simp add: classify_def)
  show ?thesis
    using assms(1-3) by (simp add: c add_item_def map_of_dict_set)
qed

theorem rhombus_question_witness:
  "map_of (add_item []
      \<lparr>item_id = Some ''q1'', item_type = Some ''shape'', item_content = Some ''<p>Is X true?</p>'',
       item_shape = Some ''rhombus''\<rparr>) ''q1'' =
     Some \<lparr>ni_text = ''Is X true?'', ni_mermaid_shape = ''diamond'', ni_type = ''question''\<rparr>"
proof -
  let ?item = "\<lparr>item_id = Some ''q1'', item_type = Some ''shape'',
      item_content = Some ''<p>Is X true?</p>'', item_shape = Some ''rhombus''\<rparr>"
  have t: "html_to_text_opt (item_content ?item) = ''Is X true?''"
    by (simp add: eval_defs)
  have "item_id ?item = Some ''q1''" and "''q1'' \<noteq> []"
    and "item_type ?item = Some ''shape''" and "item_shape ?item = Some ''rhombus''"
    by simp_all
  from rhombus_question [OF this, of "[]"] show ?thesis
    unfolding t by simp
qed

text \<open>
  C10. An item whose classified label is empty or the word shape, and whose identifier is
  not a key of the conclusion table, leaves the node dictionary as it is. In particular a
  sticky note or a text item whose normalized content is the word shape is classified,
  with that label, and still adds no node.
\<close>

theorem excluded_labels:
  assumes "item_id item = Some iid"
    and "iid \<notin> set (dict_keys conclusion_text_map)"
  shows "(\<forall>node_info. classify iid item = Some node_info \<and>
            (ni_text node_info = [] \<or> ni_text node_info = ''shape'') \<longrightarrow>
            add_item nodes item = nodes) \<and>
    ((item_type item = Some ''sticky_note'' \<or> item_type item = Some ''text'') \<and>
       html_to_text_opt (item_content item) = ''shape'' \<longrightarrow>
       (\<exists>node_info. classify iid item = Some node_info \<and> ni_text node_info = ''shape'') \<and>
       add_item nodes item = nodes)"
proof (intro conjI allI impI)
  fix node_info
  assume "classify iid item = Some node_info \<and>
      (ni_text node_info = [] \<or> ni_text node_info = ''shape'')"
  then show "add_item nodes item = nodes"
    using assms by (auto simp: add_item_def)
next
  assume a: "(item_type item = Some ''sticky_note'' \<or> item_type item = Some ''text'') \<and>
      html_to_text_opt (item_content item) = ''shape''"
  have low: "\<not> startswith (lower ''shape'') ''decision tree''"
    by (simp add: startswith_def lower_def)
  from a low show c: "\<exists>node_info. classify iid item = Some node_info \<and> ni_text node_info = ''shape''"
    by (auto simp: classify_def)
  then show "add_item nodes item = nodes"
    using assms by (auto simp: add_item_def)
qed

theorem excluded_labels_witness:
  "add_item
     [(''q'', \<lparr>ni_text = ''Is it?'', ni_mermaid_shape = ''diamond'', ni_type = ''question''\<rparr>)]
     \<lparr>item_id = Some ''s1'', item_type = Some ''sticky_note'',
      item_content = Some ''<p>shape</p>'', item_shape = None\<rparr> =
     [(''q'', \<lparr>ni_text = ''Is it?'', ni_mermaid_shape = ''diamond'', ni_type = ''question''\<rparr>)]"
proof -
  let ?item = "\<lparr>item_id = Some ''s1'', item_type = Some ''sticky_note'',
      item_content = Some ''<p>shape</p>'', item_shape = None\<rparr>"
  have 1: "item_id ?item = Some ''s1''"
    by simp
  have 2: "''s1'' \<notin> set (dict_keys conclusion_text_map)"
    by (simp add: dict_keys_def conclusion_text_map_def)
  have 3: "(item_type ?item = Some ''sticky_note'' \<or> item_type ?item = Some ''text'') \<and>
      html_to_text_opt (item_content ?item) = ''shape''"
    by (simp add: eval_defs)
  from excluded_labels [OF 1 2] 3 show ?thesis
    by blast
qed

text \<open>
  C7, as the specification states it, fails: on the empty board the generator prints that
  no nodes were found and returns; it writes no file, so no header-only document exists.
\<close>

theorem generate_mermaid_empty_counterexample:
  "generate_mermaid \<lparr>items = [], connectors = []\<rparr> ''fixed_decision_tree.mmd'' =
     \<lparr>printed = [''No nodes found!''], written = []\<rparr>"
  by (simp add: generate_mermaid_def extract_nodes_and_connections_def)

text \<open>
  C7, amended. When the extraction yields no node, the generator writes no document: it
  prints the message that no nodes were found and does nothing else. The start-node
  resolver on that empty node dictionary returns null.
\<close>

theorem generate_mermaid_empty:
  assumes "fst (extract_nodes_and_connections data) = []"
  shows "generate_mermaid data output_file = \<lparr>printed = [''No nodes found!''], written = []\<rparr> \<and>
    find_start_node (fst (extract_nodes_and_connections data))
      (snd (extract_nodes_and_connections data)) = None"
proof (cases "extract_nodes_and_connections data")
  case (Pair nodes connections)
  with assms have "nodes = []"
    by simp
  with Pair show ?thesis
    by (simp add: generate_mermaid_def find_start_node_def)
qed

theorem generate_mermaid_empty_witness:
  "generate_mermaid
     \<lparr>items = [\<lparr>item_id = Some ''t1'', item_type = Some ''text'',
        item_content = Some ''Decision Tree Overview'', item_shape = None\<rparr>],
      connectors = [\<lparr>start_item_id = Some ''t1'', end_item_id = Some ''t2'', captions = []\<rparr>]\<rparr>
     ''out.mmd'' = \<lparr>printed = [''No nodes found!''], written = []\<rparr>"
proof -
  let ?data = "\<lparr>items = [\<lparr>item_id = Some ''t1'', item_type = Some ''text'',
        item_content = Some ''Decision Tree Overview'', item_shape = None\<rparr>],
      connectors = [\<lparr>start_item_id = Some ''t1'', end_item_id = Some ''t2'', captions = []\<rparr>]\<rparr>"
  have "fst (extract_nodes_and_connections ?data) = []"
    by (simp add: extract_nodes_and_connections_def add_item_def classify_def eval_defs
        lower_def lower_char_def startswith_def char_of_def bit_Suc_0_iff)
  from generate_mermaid_empty [OF this] show ?thesis
    by simp
qed

section \<open>Properties of the labels\<close>

lemma length_safe_text: "length (safe_text text) \<le> 50"
  by (simp add: safe_text_def Let_def)

text \<open>
  C9. A node text that is longer than 50 characters after the cleaning is written as its
  first 47 characters followed by three dots, 50 characters in all, between the quotes of
  the node's shape. An edge label longer than 30 characters after its cleaning is written
  as its first 27 characters followed by three dots, 30 characters in all.
\<close>

theorem label_truncation:
  "(50 < length (clean_node_text text) \<longrightarrow>
      safe_text text = take 47 (clean_node_text text) @ ''...'' \<and>
      length (safe_text text) = 50 \<and>
      (\<exists>shape_start shape_close.
         get_mermaid_shape node_info text =
           (shape_start, [dquote] @ safe_text text @ [dquote] @ shape_close))) \<and>
   (30 < length (clean_edge_text label) \<longrightarrow>
      clean_label label = take 27 (clean_edge_text label) @ ''...'' \<and>
      length (clean_label label) = 30 \<and>
      (label \<noteq> [] \<longrightarrow>
         edge_line a b label =
           ''    '' @ a @ '' -->|'' @ [dquote] @ clean_label label @ [dquote] @ ''| '' @ b))"
  by (simp add: safe_text_def clean_label_def get_mermaid_shape_def edge_line_def Let_def)

theorem label_truncation_witness:
  "length (safe_text (''Does the <study> involve (identifiable) '' @ [dquote] @ ''patient''
      @ [dquote] @ '' data?'')) = 50 \<and>
   drop 47 (safe_text (''Does the <study> involve (identifiable) '' @ [dquote] @ ''patient''
      @ [dquote] @ '' data?'')) = ''...'' \<and>
   clean_label ''Yes, <only> if [consent] was given by all'' = ''Yes, only if consent was gi...''"
proof -
  let ?text = "''Does the <study> involve (identifiable) '' @ [dquote] @ ''patient''
      @ [dquote] @ '' data?''"
  let ?label = "''Yes, <only> if [consent] was given by all''"
  have n: "length (clean_node_text ?text) = 59"
    by (simp add: clean_node_text_def strip_brackets_def startswith_def eval_defs)
  have e: "clean_edge_text ?label = ''Yes, only if consent was given by all''"
    by (simp add: clean_edge_text_def strip_brackets_def startswith_def eval_defs)
  have "50 < length (clean_node_text ?text)" and "30 < length (clean_edge_text ?label)"
    using n e by simp_all
  with label_truncation
    [of ?text "\<lparr>ni_text = ?text, ni_mermaid_shape = ''diamond'', ni_type = ''question''\<rparr>"
      ?label "''N1''" "''N2''"]
  have "safe_text ?text = take 47 (clean_node_text ?text) @ ''...''"
    and "length (safe_text ?text) = 50"
    and "clean_label ?label = take 27 (clean_edge_text ?label) @ ''...''"
    by blast+
  then show ?thesis
    using n e by simp
qed

section \<open>Properties of the text normalizer\<close>













lemma not_space_lt: "\<not> isspace CHR ''<''" and not_space_gt: "\<not> isspace CHR ''>''"
  and space_space: "isspace CHR '' ''"
  by (simp_all add: isspace_def)


































end
